theory Spec2Isabelle
  imports Complex_Main "HOL-Library.AList"
begin

section \<open>Values exchanged with clients\<close>

text \<open>
  Request bodies and socket payloads reach the handlers as JavaScript values, already
  parsed. A number is a double: \<open>JNum q\<close> is the finite double of exact value \<open>q\<close>,
  and \<open>JInfinity\<close>, \<open>JNegInfinity\<close> and \<open>JNaN\<close> are the three kinds of number
  that are not finite. A JSON literal beyond the range of the doubles, such as
  \<open>1e400\<close>, has been parsed to \<open>Infinity\<close> before a handler sees it. The server only
  asks of a number whether it is an integer and compares it with the canvas bounds;
  both observations are exact on the rationals. \<open>JUndefined\<close> is what a missing payload
  or a missing property reads as.
\<close>

datatype jsval =
    JUndefined
  | JNull
  | JBool bool
  | JNum rat
  | JInfinity
  | JNegInfinity
  | JNaN
  | JStr string
  | JArr "jsval list"
  | JObj "(string \<times> jsval) list"

text \<open>
  \<open>Number.MAX_VALUE\<close>, the largest finite double, and the range a finite double lies
  in: \<open>JNum q\<close> stands for a value of the program only when \<open>q\<close> is inside it.
\<close>

definition MAX_VALUE :: rat where
  "MAX_VALUE = (2 ^ 53 - 1) * 2 ^ 971"

definition double_range :: "rat \<Rightarrow> bool" where
  "double_range q = (\<bar>q\<bar> \<le> MAX_VALUE)"

datatype js_error = TypeError

text \<open>
  \<open>const { x, y, color } = v\<close>: destructuring \<open>null\<close> or \<open>undefined\<close> throws a
  TypeError; an object yields its properties (\<open>undefined\<close> for a missing one); any other
  value (boolean, number finite or not, string, array) has no property of these three
  names.
\<close>

fun get_prop :: "(string \<times> jsval) list \<Rightarrow> string \<Rightarrow> jsval" where
  "get_prop fs k = (case map_of fs k of None \<Rightarrow> JUndefined | Some v \<Rightarrow> v)"

fun destructure :: "jsval \<Rightarrow> js_error + (jsval \<times> jsval \<times> jsval)" where
  "destructure JUndefined = Inl TypeError"
| "destructure JNull = Inl TypeError"
| "destructure (JObj fs) = Inr (get_prop fs ''x'', get_prop fs ''y'', get_prop fs ''color'')"
| "destructure _ = Inr (JUndefined, JUndefined, JUndefined)"

text \<open>
  \<open>Number.isInteger(v)\<close>, together with the integer a number that passes it denotes.
  It is false of \<open>Infinity\<close>, \<open>-Infinity\<close> and \<open>NaN\<close> as of every value that is not
  a number.
\<close>

fun integer_of :: "jsval \<Rightarrow> int option" where
  "integer_of (JNum q) = (if of_int \<lfloor>q\<rfloor> = q then Some \<lfloor>q\<rfloor> else None)"
| "integer_of _ = None"

definition Number_isInteger :: "jsval \<Rightarrow> bool" where
  "Number_isInteger v = (integer_of v \<noteq> None)"

text \<open>
  \<open>validColor\<close>: \<open>typeof c === 'string' && /^#[0-9A-Fa-f]{6}$/.test(c)\<close>. The character
  class is three ranges of code points; without the \<open>m\<close> flag the anchors are the two ends
  of the string. A character outside the three ranges makes the colour invalid whatever
  its code point, so strings are taken as lists of 8-bit characters.
\<close>

definition hex_class :: "char \<Rightarrow> bool" where
  "hex_class c =
     (let n = (of_char c :: nat)
      in (48 \<le> n \<and> n \<le> 57) \<or> (65 \<le> n \<and> n \<le> 70) \<or> (97 \<le> n \<and> n \<le> 102))"

fun validColor :: "jsval \<Rightarrow> bool" where
  "validColor (JStr s) =
     (case s of
        [] \<Rightarrow> False
      | h # ds \<Rightarrow> h = CHR ''#'' \<and> length ds = 6 \<and> list_all hex_class ds)"
| "validColor _ = False"

section \<open>Configuration and server state\<close>

text \<open>
  \<open>CANVAS_W\<close>, \<open>CANVAS_H\<close> and \<open>PLACE_COOLDOWN_MS\<close> are read once with \<open>parseInt\<close>
  (defaults 300, 150 and 5000); they are taken as integers.
\<close>

record config =
  CANVAS_W :: int
  CANVAS_H :: int
  PLACE_COOLDOWN_MS :: int

definition default_config :: config where
  "default_config = \<lparr>CANVAS_W = 300, CANVAS_H = 150, PLACE_COOLDOWN_MS = 5000\<rparr>"

text \<open>A row of the table \<open>pixels(x, y, color, last_modified)\<close>.\<close>

record pixel_row =
  row_x :: int
  row_y :: int
  row_color :: string
  row_last_modified :: int

text \<open>A connected socket: its id and \<open>socket.handshake.address\<close>.\<close>

record socket =
  sock_id :: nat
  handshake_address :: string

text \<open>The events the server emits, and an emission as the pair of receiver and event.\<close>

datatype event =
    Config int int
  | Pixels "(int \<times> int \<times> string) list"
  | Pixel int int string
  | PlaceDenied string
  | ErrorEv string

type_synonym emitted = "(socket \<times> event) list"

text \<open>
  The mutable state of the process: the table \<open>pixels\<close>, the two cooldown objects
  \<open>global._placeCooldown\<close> and \<open>global._socketCooldown\<close> (\<open>None\<close> while the global is
  still undefined; the keys are the addresses, in insertion order), and the sockets
  connected at the moment.
\<close>

record server_state =
  pixels :: "pixel_row list"
  placeCooldown :: "(string \<times> int) list option"
  socketCooldown :: "(string \<times> int) list option"
  sockets :: "socket list"

definition initial_state :: server_state where
  "initial_state = \<lparr>pixels = [], placeCooldown = None, socketCooldown = None, sockets = []\<rparr>"

record response =
  status :: nat
  body :: jsval

definition error_json :: "nat \<Rightarrow> string \<Rightarrow> response" where
  "error_json code msg = \<lparr>status = code, body = JObj [(''error'', JStr msg)]\<rparr>"

definition ok_json :: response where
  "ok_json = \<lparr>status = 200, body = JObj [(''ok'', JBool True)]\<rparr>"

definition io_emit :: "server_state \<Rightarrow> event \<Rightarrow> emitted" where
  "io_emit s ev = map (\<lambda>c. (c, ev)) (sockets s)"

definition socket_emit :: "socket \<Rightarrow> event \<Rightarrow> emitted" where
  "socket_emit sock ev = [(sock, ev)]"

section \<open>The table of pixels\<close>

text \<open>
  \<open>INSERT INTO pixels(x,y,color,last_modified) VALUES(?,?,?,?) ON CONFLICT(x,y) DO UPDATE
  SET color=excluded.color, last_modified=excluded.last_modified\<close>: the row of the
  coordinate is updated in place when there is one, and a new row is added otherwise.
\<close>

fun upsert :: "int \<Rightarrow> int \<Rightarrow> string \<Rightarrow> int \<Rightarrow> pixel_row list \<Rightarrow> pixel_row list" where
  "upsert x y c ts [] = [\<lparr>row_x = x, row_y = y, row_color = c, row_last_modified = ts\<rparr>]"
| "upsert x y c ts (r # rs) =
     (if row_x r = x \<and> row_y r = y
      then r\<lparr>row_color := c, row_last_modified := ts\<rparr> # rs
      else r # upsert x y c ts rs)"

text \<open>\<open>SELECT x, y, color FROM pixels\<close>, in the order of the table.\<close>

definition select_pixels :: "pixel_row list \<Rightarrow> (int \<times> int \<times> string) list" where
  "select_pixels rows = map (\<lambda>r. (row_x r, row_y r, row_color r)) rows"

text \<open>The rows stored for one coordinate.\<close>

definition rows_at :: "int \<Rightarrow> int \<Rightarrow> pixel_row list \<Rightarrow> pixel_row list" where
  "rows_at x y rows = filter (\<lambda>r. row_x r = x \<and> row_y r = y) rows"

definition one_row_per_coordinate :: "pixel_row list \<Rightarrow> bool" where
  "one_row_per_coordinate rows = distinct (map (\<lambda>r. (row_x r, row_y r)) rows)"

section \<open>Validation and cooldown\<close>

text \<open>
  The three guards both place handlers open with, in the order of the source: the
  coordinates are integers, they are inside the canvas, the colour is valid. The REST
  handler answers each failure with its own message; the socket handler returns.
\<close>

datatype invalid = InvalidCoords | OutOfBounds | InvalidColor

definition check_place :: "config \<Rightarrow> jsval \<Rightarrow> jsval \<Rightarrow> jsval \<Rightarrow> invalid + (int \<times> int \<times> string)" where
  "check_place cfg x y color =
     (case (integer_of x, integer_of y) of
        (Some xi, Some yi) \<Rightarrow>
          if xi < 0 \<or> xi \<ge> CANVAS_W cfg \<or> yi < 0 \<or> yi \<ge> CANVAS_H cfg then Inl OutOfBounds
          else (case color of
                  JStr c \<Rightarrow> if validColor color then Inr (xi, yi, c) else Inl InvalidColor
                | _ \<Rightarrow> Inl InvalidColor)
      | _ \<Rightarrow> Inl InvalidCoords)"

text \<open>
  The cooldown step on one of the two objects:
  \<open>if (!global.T) global.T = {}; const last = global.T[ip] || 0;
  if (ts - last < PLACE_COOLDOWN_MS) deny; global.T[ip] = ts;\<close>
  It returns the object afterwards and whether the request was admitted. \<open>table_of\<close> is
  the object once the first line has run, \<open>last_of\<close> is \<open>global.T[ip] || 0\<close>: a missing
  entry reads as \<open>undefined\<close>, and a stored 0 is falsy as well. The keys are network
  addresses, none of which names a member of \<open>Object.prototype\<close>.
\<close>

definition table_of :: "(string \<times> int) list option \<Rightarrow> (string \<times> int) list" where
  "table_of g = (case g of None \<Rightarrow> [] | Some tbl \<Rightarrow> tbl)"

definition last_of :: "(string \<times> int) list \<Rightarrow> string \<Rightarrow> int" where
  "last_of tbl ip = (case map_of tbl ip of None \<Rightarrow> 0 | Some t \<Rightarrow> t)"

definition cooldown_step ::
  "config \<Rightarrow> (string \<times> int) list option \<Rightarrow> string \<Rightarrow> int \<Rightarrow> (string \<times> int) list option \<times> bool" where
  "cooldown_step cfg g ip ts =
     (let tbl = table_of g;
          last = last_of tbl ip
      in if ts - last < PLACE_COOLDOWN_MS cfg then (Some tbl, False)
         else (Some (AList.update ip ts tbl), True))"

text \<open>The entry an address has in a cooldown object, if any.\<close>

definition entry :: "(string \<times> int) list option \<Rightarrow> string \<Rightarrow> int option" where
  "entry g ip = map_of (table_of g) ip"

section \<open>The handlers\<close>

text \<open>
  A handler runs with its completion callback as one step. \<open>ts\<close> is the value of
  \<open>Date.now()\<close> and \<open>db_err\<close> tells whether the statement sent to the database fails; a
  failed statement leaves the table as it was.
\<close>

text \<open>
  \<open>app.post('/api/place')\<close>: \<open>ip\<close> is \<open>req.ip\<close> and \<open>req_body\<close> is \<open>req.body\<close>. A
  TypeError thrown by the destructuring leaves the handler.
\<close>

definition post_place ::
  "config \<Rightarrow> string \<Rightarrow> jsval \<Rightarrow> int \<Rightarrow> bool \<Rightarrow> server_state
     \<Rightarrow> js_error + (server_state \<times> response \<times> emitted)" where
  "post_place cfg ip req_body ts db_err s =
     (case destructure req_body of
        Inl e \<Rightarrow> Inl e
      | Inr (x, y, color) \<Rightarrow>
          (case check_place cfg x y color of
             Inl InvalidCoords \<Rightarrow> Inr (s, error_json 400 ''invalid coords'', [])
           | Inl OutOfBounds \<Rightarrow> Inr (s, error_json 400 ''out of bounds'', [])
           | Inl InvalidColor \<Rightarrow> Inr (s, error_json 400 ''invalid color'', [])
           | Inr (xi, yi, c) \<Rightarrow>
               (case cooldown_step cfg (placeCooldown s) ip ts of
                  (g, False) \<Rightarrow> Inr (s\<lparr>placeCooldown := g\<rparr>, error_json 429 ''cooldown'', [])
                | (g, True) \<Rightarrow>
                    (let s1 = s\<lparr>placeCooldown := g\<rparr>
                     in if db_err then Inr (s1, error_json 500 ''db'', [])
                        else (let s2 = s1\<lparr>pixels := upsert xi yi c ts (pixels s1)\<rparr>
                              in Inr (s2, ok_json, io_emit s2 (Pixel xi yi c)))))))"

text \<open>The response a request gets; none when the handler threw.\<close>

definition response_of :: "js_error + (server_state \<times> response \<times> emitted) \<Rightarrow> response option" where
  "response_of r = (case r of Inl e \<Rightarrow> None | Inr (s', resp, out) \<Rightarrow> Some resp)"

text \<open>\<open>app.get('/api/pixels')\<close>.\<close>

definition rows_json :: "pixel_row list \<Rightarrow> jsval" where
  "rows_json rows =
     JArr (map (\<lambda>r. JObj [(''x'', JNum (of_int (row_x r))), (''y'', JNum (of_int (row_y r))),
                          (''color'', JStr (row_color r))]) rows)"

definition get_pixels :: "bool \<Rightarrow> server_state \<Rightarrow> server_state \<times> response" where
  "get_pixels db_err s =
     (if db_err then (s, error_json 500 ''db'')
      else (s, \<lparr>status = 200, body = rows_json (pixels s)\<rparr>))"

text \<open>\<open>io.on('connection')\<close>: the socket joins and is sent the canvas size.\<close>

definition on_connection :: "config \<Rightarrow> socket \<Rightarrow> server_state \<Rightarrow> server_state \<times> emitted" where
  "on_connection cfg sock s =
     (s\<lparr>sockets := sockets s @ [sock]\<rparr>, socket_emit sock (Config (CANVAS_W cfg) (CANVAS_H cfg)))"

text \<open>\<open>socket.on('getPixels')\<close>.\<close>

definition on_getPixels :: "socket \<Rightarrow> bool \<Rightarrow> server_state \<Rightarrow> server_state \<times> emitted" where
  "on_getPixels sock db_err s =
     (if db_err then (s, socket_emit sock (ErrorEv ''db''))
      else (s, socket_emit sock (Pixels (select_pixels (pixels s)))))"

text \<open>
  \<open>socket.on('place')\<close>: first the body of the \<open>try\<close> block, then the handler, whose
  \<open>catch\<close> is empty. Nothing is written before the destructuring, so a caught error
  leaves the state it found.
\<close>

definition on_place_try ::
  "config \<Rightarrow> socket \<Rightarrow> jsval \<Rightarrow> int \<Rightarrow> bool \<Rightarrow> server_state
     \<Rightarrow> js_error + (server_state \<times> emitted)" where
  "on_place_try cfg sock data ts db_err s =
     (let ip = handshake_address sock
      in case destructure data of
           Inl e \<Rightarrow> Inl e
         | Inr (x, y, color) \<Rightarrow>
             (case check_place cfg x y color of
                Inl _ \<Rightarrow> Inr (s, [])
              | Inr (xi, yi, c) \<Rightarrow>
                  (case cooldown_step cfg (socketCooldown s) ip ts of
                     (g, False) \<Rightarrow>
                       Inr (s\<lparr>socketCooldown := g\<rparr>, socket_emit sock (PlaceDenied ''cooldown''))
                   | (g, True) \<Rightarrow>
                       (let s1 = s\<lparr>socketCooldown := g\<rparr>
                        in if db_err then Inr (s1, [])
                           else (let s2 = s1\<lparr>pixels := upsert xi yi c ts (pixels s1)\<rparr>
                                 in Inr (s2, io_emit s2 (Pixel xi yi c)))))))"

definition on_place ::
  "config \<Rightarrow> socket \<Rightarrow> jsval \<Rightarrow> int \<Rightarrow> bool \<Rightarrow> server_state \<Rightarrow> server_state \<times> emitted" where
  "on_place cfg sock data ts db_err s =
     (case on_place_try cfg sock data ts db_err s of
        Inl e \<Rightarrow> (s, [])
      | Inr r \<Rightarrow> r)"

section \<open>Runs of the server\<close>

text \<open>
  What reaches the server, and the state each leaves. The process starts on the database
  file it finds, whose table satisfies its primary key \<open>(x, y)\<close>, with both cooldown
  objects undefined and no socket connected. A socket that disconnects is dropped from
  the connected ones.
\<close>

datatype action =
    Connect socket
  | Disconnect socket
  | PostPlace string jsval int bool
  | GetPixels bool
  | SocketGetPixels socket bool
  | SocketPlace socket jsval int bool

fun step :: "config \<Rightarrow> action \<Rightarrow> server_state \<Rightarrow> server_state" where
  "step cfg (Connect sock) s = fst (on_connection cfg sock s)"
| "step cfg (Disconnect sock) s = s\<lparr>sockets := removeAll sock (sockets s)\<rparr>"
| "step cfg (PostPlace ip req_body ts db_err) s =
     (case post_place cfg ip req_body ts db_err s of Inl e \<Rightarrow> s | Inr (s', r, out) \<Rightarrow> s')"
| "step cfg (GetPixels db_err) s = fst (get_pixels db_err s)"
| "step cfg (SocketGetPixels sock db_err) s = fst (on_getPixels sock db_err s)"
| "step cfg (SocketPlace sock data ts db_err) s = fst (on_place cfg sock data ts db_err s)"

inductive reachable :: "config \<Rightarrow> server_state \<Rightarrow> bool" for cfg :: config where
  start: "one_row_per_coordinate rows \<Longrightarrow> reachable cfg (initial_state\<lparr>pixels := rows\<rparr>)"
| next_state: "reachable cfg s \<Longrightarrow> reachable cfg (step cfg a s)"







section \<open>Example inputs\<close>

text \<open>The message \<open>{ x, y, color }\<close> the client sends (\<open>placePixel\<close> of the client script).\<close>

definition place_message :: "int \<Rightarrow> int \<Rightarrow> string \<Rightarrow> jsval" where
  "place_message x y c =
     JObj [(''x'', JNum (of_int x)), (''y'', JNum (of_int y)), (''color'', JStr c)]"

definition socket_a :: socket where
  "socket_a = \<lparr>sock_id = 1, handshake_address = ''203.0.113.7''\<rparr>"

definition socket_b :: socket where
  "socket_b = \<lparr>sock_id = 2, handshake_address = ''198.51.100.9''\<rparr>"

definition two_clients :: server_state where
  "two_clients =
     \<lparr>pixels = [], placeCooldown = None, socketCooldown = None, sockets = [socket_a, socket_b]\<rparr>"

text \<open>The state after \<open>socket_a\<close> has placed a red pixel at \<open>(10, 20)\<close>.\<close>

definition after_first_place :: server_state where
  "after_first_place =
     \<lparr>pixels = [\<lparr>row_x = 10, row_y = 20, row_color = ''#ff0000'',
                   row_last_modified = 1700000000000\<rparr>],
      placeCooldown = None,
      socketCooldown = Some [(''203.0.113.7'', 1700000000000)],
      sockets = [socket_a, socket_b]\<rparr>"

text \<open>The state after the address of \<open>socket_a\<close> has placed the same pixel over REST.\<close>

definition after_rest_place :: server_state where
  "after_rest_place =
     \<lparr>pixels = [\<lparr>row_x = 10, row_y = 20, row_color = ''#ff0000'',
                   row_last_modified = 1700000000000\<rparr>],
      placeCooldown = Some [(''203.0.113.7'', 1700000000000)],
      socketCooldown = None,
      sockets = [socket_a, socket_b]\<rparr>"



section \<open>Facts about validation\<close>

lemma integer_of_Some_iff: "integer_of v = Some i \<longleftrightarrow> v = JNum (of_int i)"
  by (cases v) auto

lemma hex_class_chars: "hex_class c \<longleftrightarrow> c \<in> set ''0123456789abcdefABCDEF''"
proof -
  have "c \<in> set ''0123456789abcdefABCDEF'' \<longleftrightarrow>
        (of_char c :: nat) \<in> of_char ` set ''0123456789abcdefABCDEF''"
    by (rule inj_image_mem_iff[symmetric]) (rule inj_of_char)
  also have "\<dots> \<longleftrightarrow> hex_class c"
    unfolding hex_class_def Let_def by simp arith
  finally show ?thesis by simp
qed

lemma validColor_iff:
  "validColor v \<longleftrightarrow>
     (\<exists>ds. v = JStr (CHR ''#'' # ds) \<and> length ds = 6 \<and>
        (\<forall>d\<in>set ds. d \<in> set ''0123456789abcdefABCDEF''))"
proof (cases v)
  case (JStr s)
  then show ?thesis
    by (cases s) (auto simp: list_all_iff hex_class_chars)
qed auto

lemma check_place_Inr_iff:
  "check_place cfg x y color = Inr (i, j, c) \<longleftrightarrow>
     x = JNum (of_int i) \<and> y = JNum (of_int j) \<and>
     0 \<le> i \<and> i < CANVAS_W cfg \<and> 0 \<le> j \<and> j < CANVAS_H cfg \<and>
     color = JStr c \<and> validColor (JStr c)"
  unfolding check_place_def
  by (auto simp: integer_of_Some_iff split: option.splits jsval.splits)

lemma check_place_cases:
  obtains (invalid) e where "check_place cfg x y color = Inl e"
  | (valid) i j c where "check_place cfg x y color = Inr (i, j, c)"
  by (cases "check_place cfg x y color") auto

lemma check_place_not_integer:
  "\<not> Number_isInteger x \<or> \<not> Number_isInteger y \<Longrightarrow> check_place cfg x y color = Inl InvalidCoords"
  by (auto simp: check_place_def Number_isInteger_def split: option.splits)

lemma check_place_integers:
  "check_place cfg (JNum (of_int i)) (JNum (of_int j)) color =
     (if i < 0 \<or> CANVAS_W cfg \<le> i \<or> j < 0 \<or> CANVAS_H cfg \<le> j then Inl OutOfBounds
      else if validColor color then Inr (i, j, case color of JStr c \<Rightarrow> c | _ \<Rightarrow> [])
      else Inl InvalidColor)"
  by (cases color) (simp_all add: check_place_def)

section \<open>Facts about the cooldown objects\<close>

lemma entry_table_of [simp]: "entry (Some (table_of g)) a = entry g a"
  by (simp add: entry_def table_of_def)

lemma entry_update [simp]:
  "entry (Some (AList.update ip ts tbl)) a = (if a = ip then Some ts else map_of tbl a)"
  by (simp add: entry_def table_of_def update_conv')


lemma last_of_after_update [simp]: "last_of (AList.update ip ts tbl) ip = ts"
  by (simp add: last_of_def update_conv')


section \<open>Facts about the handlers\<close>

lemma status_error_json [simp]: "status (error_json code msg) = code"
  by (simp add: error_json_def)

lemma status_ok_json [simp]: "status ok_json = 200"
  by (simp add: ok_json_def)

lemma post_place_invalid:
  assumes "destructure req_body = Inr (x, y, color)" and "check_place cfg x y color = Inl e"
  shows "post_place cfg ip req_body ts db_err s =
     Inr (s, error_json 400
            (case e of InvalidCoords \<Rightarrow> ''invalid coords'' | OutOfBounds \<Rightarrow> ''out of bounds''
                     | InvalidColor \<Rightarrow> ''invalid color''), [])"
  using assms by (cases e) (simp_all add: post_place_def)

lemma post_place_valid:
  assumes "destructure req_body = Inr (x, y, color)" and "check_place cfg x y color = Inr (i, j, c)"
  shows "post_place cfg ip req_body ts db_err s =
     (if ts - last_of (table_of (placeCooldown s)) ip < PLACE_COOLDOWN_MS cfg
      then Inr (s\<lparr>placeCooldown := Some (table_of (placeCooldown s))\<rparr>, error_json 429 ''cooldown'', [])
      else if db_err
      then Inr (s\<lparr>placeCooldown := Some (AList.update ip ts (table_of (placeCooldown s)))\<rparr>,
                error_json 500 ''db'', [])
      else Inr (s\<lparr>placeCooldown := Some (AList.update ip ts (table_of (placeCooldown s))),
                   pixels := upsert i j c ts (pixels s)\<rparr>,
                ok_json, map (\<lambda>k. (k, Pixel i j c)) (sockets s)))"
  using assms by (simp add: post_place_def cooldown_step_def Let_def io_emit_def)

lemma on_place_throws:
  assumes "destructure data = Inl e"
  shows "on_place cfg sock data ts db_err s = (s, [])"
  using assms by (simp add: on_place_def on_place_try_def)

lemma on_place_invalid:
  assumes "destructure data = Inr (x, y, color)" and "check_place cfg x y color = Inl e"
  shows "on_place cfg sock data ts db_err s = (s, [])"
  using assms by (simp add: on_place_def on_place_try_def)

lemma on_place_valid:
  assumes "destructure data = Inr (x, y, color)" and "check_place cfg x y color = Inr (i, j, c)"
  shows "on_place cfg sock data ts db_err s =
     (if ts - last_of (table_of (socketCooldown s)) (handshake_address sock) < PLACE_COOLDOWN_MS cfg
      then (s\<lparr>socketCooldown := Some (table_of (socketCooldown s))\<rparr>,
            [(sock, PlaceDenied ''cooldown'')])
      else if db_err
      then (s\<lparr>socketCooldown :=
                 Some (AList.update (handshake_address sock) ts (table_of (socketCooldown s)))\<rparr>, [])
      else (s\<lparr>socketCooldown :=
                 Some (AList.update (handshake_address sock) ts (table_of (socketCooldown s))),
               pixels := upsert i j c ts (pixels s)\<rparr>,
            map (\<lambda>k. (k, Pixel i j c)) (sockets s)))"
  using assms
  by (simp add: on_place_def on_place_try_def cooldown_step_def Let_def io_emit_def socket_emit_def)

lemma socket_write_stored:
  assumes "destructure data = Inr (x, y, color)" and "check_place cfg x y color = Inr (i, j, c)"
    and "PLACE_COOLDOWN_MS cfg \<le> ts - last_of (table_of (socketCooldown s)) (handshake_address sock)"
  shows "pixels (step cfg (SocketPlace sock data ts False) s) = upsert i j c ts (pixels s)"
    and "last_of (table_of (socketCooldown (step cfg (SocketPlace sock data ts False) s)))
           (handshake_address sock) = ts"
  using assms by (simp_all add: on_place_valid table_of_def)

lemma rest_write_stored:
  assumes "destructure req_body = Inr (x, y, color)" and "check_place cfg x y color = Inr (i, j, c)"
    and "PLACE_COOLDOWN_MS cfg \<le> ts - last_of (table_of (placeCooldown s)) ip"
  shows "pixels (step cfg (PostPlace ip req_body ts False) s) = upsert i j c ts (pixels s)"
    and "last_of (table_of (placeCooldown (step cfg (PostPlace ip req_body ts False) s))) ip = ts"
  using assms by (simp_all add: post_place_valid table_of_def)

section \<open>Facts about the table of pixels\<close>

lemma upsert_idem: "upsert x y c ts (upsert x y c ts rows) = upsert x y c ts rows"
  by (induction rows) auto

lemma keys_upsert:
  "map (\<lambda>r. (row_x r, row_y r)) (upsert x y c ts rows) =
     (if (x, y) \<in> set (map (\<lambda>r. (row_x r, row_y r)) rows)
      then map (\<lambda>r. (row_x r, row_y r)) rows
      else map (\<lambda>r. (row_x r, row_y r)) rows @ [(x, y)])"
  by (induction rows) auto

lemma one_row_upsert:
  "one_row_per_coordinate rows \<Longrightarrow> one_row_per_coordinate (upsert x y c ts rows)"
  by (simp add: one_row_per_coordinate_def keys_upsert)

lemma rows_at_empty:
  "(x, y) \<notin> set (map (\<lambda>r. (row_x r, row_y r)) rows) \<Longrightarrow> rows_at x y rows = []"
  by (induction rows) (auto simp: rows_at_def)

lemma rows_at_upsert_same:
  "one_row_per_coordinate rows \<Longrightarrow>
   rows_at x y (upsert x y c ts rows)
     = [\<lparr>row_x = x, row_y = y, row_color = c, row_last_modified = ts\<rparr>]"
proof (induction rows)
  case Nil
  show ?case by (simp add: rows_at_def)
next
  case (Cons r rs)
  show ?case
  proof (cases "row_x r = x \<and> row_y r = y")
    case True
    with Cons.prems have "(x, y) \<notin> set (map (\<lambda>r. (row_x r, row_y r)) rs)"
      by (auto simp: one_row_per_coordinate_def)
    then have "rows_at x y rs = []" by (rule rows_at_empty)
    then have "filter (\<lambda>r. row_x r = x \<and> row_y r = y) rs = []" by (simp add: rows_at_def)
    with True show ?thesis by (cases r) (simp add: rows_at_def)
  next
    case False
    from Cons.prems have "one_row_per_coordinate rs"
      by (simp add: one_row_per_coordinate_def)
    then have "rows_at x y (upsert x y c ts rs)
        = [\<lparr>row_x = x, row_y = y, row_color = c, row_last_modified = ts\<rparr>]"
      by (rule Cons.IH)
    with False show ?thesis by (auto simp: rows_at_def)
  qed
qed

lemma rows_at_upsert_other:
  "(x', y') \<noteq> (x, y) \<Longrightarrow> rows_at x' y' (upsert x y c ts rows) = rows_at x' y' rows"
  by (induction rows) (auto simp: rows_at_def)

lemma select_upsert_same_color:
  "rows_at x y rows \<noteq> [] \<Longrightarrow> \<forall>r\<in>set (rows_at x y rows). row_color r = c \<Longrightarrow>
   select_pixels (upsert x y c ts rows) = select_pixels rows"
  by (induction rows) (auto simp: rows_at_def select_pixels_def)

lemma resubmitted_cell:
  assumes "one_row_per_coordinate rows"
    and "rows1 = upsert i j k ts1 rows" and "rows2 = upsert i j k ts2 rows1"
  shows "rows_at i j rows1 = [\<lparr>row_x = i, row_y = j, row_color = k, row_last_modified = ts1\<rparr>]
     \<and> rows_at i j rows2 = [\<lparr>row_x = i, row_y = j, row_color = k, row_last_modified = ts2\<rparr>]
     \<and> select_pixels rows2 = select_pixels rows1
     \<and> (\<forall>x' y'. (x', y') \<noteq> (i, j) \<longrightarrow> rows_at x' y' rows2 = rows_at x' y' rows1)"
proof -
  from assms have r1: "rows_at i j rows1
      = [\<lparr>row_x = i, row_y = j, row_color = k, row_last_modified = ts1\<rparr>]"
    by (simp add: rows_at_upsert_same)
  from assms have "one_row_per_coordinate rows1"
    by (simp add: one_row_upsert)
  with assms have r2: "rows_at i j rows2
      = [\<lparr>row_x = i, row_y = j, row_color = k, row_last_modified = ts2\<rparr>]"
    by (simp add: rows_at_upsert_same)
  from r1 assms have sel: "select_pixels rows2 = select_pixels rows1"
    by (simp add: select_upsert_same_color)
  from assms have "\<forall>x' y'. (x', y') \<noteq> (i, j) \<longrightarrow> rows_at x' y' rows2 = rows_at x' y' rows1"
    by (simp add: rows_at_upsert_other)
  with r1 r2 sel show ?thesis by blast
qed

section \<open>Facts about the runs\<close>

lemma step_pixels:
  "pixels (step cfg a s) = pixels s \<or> (\<exists>i j c ts. pixels (step cfg a s) = upsert i j c ts (pixels s))"
proof (cases a)
  case (PostPlace ip req_body ts db_err)
  show ?thesis
  proof (cases "destructure req_body")
    case (Inl e)
    with PostPlace show ?thesis by (simp add: post_place_def)
  next
    case (Inr v)
    then obtain x y color where d: "destructure req_body = Inr (x, y, color)"
      by (cases v) auto
    show ?thesis
    proof (cases rule: check_place_cases[of cfg x y color])
      case (invalid e)
      with d PostPlace show ?thesis by (simp add: post_place_invalid)
    next
      case (valid i j c)
      with d PostPlace show ?thesis by (auto simp: post_place_valid)
    qed
  qed
next
  case (SocketPlace sock data ts db_err)
  show ?thesis
  proof (cases "destructure data")
    case (Inl e)
    with SocketPlace show ?thesis by (simp add: on_place_throws)
  next
    case (Inr v)
    then obtain x y color where d: "destructure data = Inr (x, y, color)"
      by (cases v) auto
    show ?thesis
    proof (cases rule: check_place_cases[of cfg x y color])
      case (invalid e)
      with d SocketPlace show ?thesis by (simp add: on_place_invalid)
    next
      case (valid i j c)
      with d SocketPlace show ?thesis by (auto simp: on_place_valid)
    qed
  qed
qed (simp_all add: on_connection_def get_pixels_def on_getPixels_def)

lemma reachable_one_row: "reachable cfg s \<Longrightarrow> one_row_per_coordinate (pixels s)"
proof (induction rule: reachable.induct)
  case (start rows)
  then show ?case by simp
next
  case (next_state s a)
  from step_pixels[of cfg a s] next_state.IH show ?case
    by (auto simp: one_row_upsert)
qed

lemma reachable_two_clients: "reachable default_config two_clients"
proof -
  let ?s0 = "initial_state\<lparr>pixels := []\<rparr>"
  have "reachable default_config ?s0"
    by (rule reachable.start) (simp add: one_row_per_coordinate_def)
  then have "reachable default_config (step default_config (Connect socket_a) ?s0)"
    by (rule reachable.next_state)
  then have "reachable default_config
      (step default_config (Connect socket_b) (step default_config (Connect socket_a) ?s0))"
    by (rule reachable.next_state)
  moreover have "step default_config (Connect socket_b) (step default_config (Connect socket_a) ?s0)
      = two_clients"
    by (simp add: on_connection_def two_clients_def initial_state_def)
  ultimately show ?thesis by simp
qed

section \<open>Facts about the cooldown entries along a run\<close>












section \<open>The responses of POST /api/place\<close>

text \<open>
  Claim C1 says that integer coordinates outside the canvas are answered
  \<open>400 {error: "invalid coords"}\<close>. The handler answers them
  \<open>400 {error: "out of bounds"}\<close>: here for \<open>x = -1\<close>.
\<close>

theorem post_place_out_of_bounds_counterexample:
  "post_place default_config ''203.0.113.7'' (place_message (- 1) 20 ''#ff0000'') 1700000000000
       False two_clients
     = Inr (two_clients, error_json 400 ''out of bounds'', [])
   \<and> error_json 400 ''out of bounds'' \<noteq> error_json 400 ''invalid coords''"
  by (simp add: post_place_def place_message_def check_place_def default_config_def error_json_def)

text \<open>
  Claim C1, amended. For a request whose body can be destructured, the response is
  \<open>400 {error: "invalid coords"}\<close> when \<open>x\<close> or \<open>y\<close> is not an integer, which is the
  case of every value that is not a number and of \<open>Infinity\<close>, \<open>-Infinity\<close> and \<open>NaN\<close>
  (so of a literal like \<open>1e400\<close>, parsed to \<open>Infinity\<close>);
  \<open>400 {error: "out of bounds"}\<close> when both are integers (finite doubles of integer
  value) and one is outside the canvas;
  \<open>400 {error: "invalid color"}\<close> when the coordinates are good and the colour is not;
  \<open>429 {error: "cooldown"}\<close> when the request is valid and the time since the
  requester's last admitted REST request (0 when there is none) is below the cooldown;
  and otherwise \<open>500 {error: "db"}\<close> when the statement fails and \<open>200 {ok: true}\<close>
  when it succeeds.
\<close>

theorem post_place_responses:
  "destructure req_body = Inr (x, y, color) \<longrightarrow>
     (\<not> Number_isInteger x \<or> \<not> Number_isInteger y \<longrightarrow>
        response_of (post_place cfg ip req_body ts db_err s) = Some (error_json 400 ''invalid coords''))
   \<and> (x \<in> {JInfinity, JNegInfinity, JNaN} \<or> y \<in> {JInfinity, JNegInfinity, JNaN} \<longrightarrow>
        response_of (post_place cfg ip req_body ts db_err s) = Some (error_json 400 ''invalid coords''))
   \<and> (x = JNum (of_int i) \<and> y = JNum (of_int j) \<and>
      double_range (of_int i) \<and> double_range (of_int j) \<longrightarrow>
        (i < 0 \<or> CANVAS_W cfg \<le> i \<or> j < 0 \<or> CANVAS_H cfg \<le> j \<longrightarrow>
           response_of (post_place cfg ip req_body ts db_err s)
             = Some (error_json 400 ''out of bounds''))
      \<and> (0 \<le> i \<and> i < CANVAS_W cfg \<and> 0 \<le> j \<and> j < CANVAS_H cfg \<longrightarrow>
           (\<not> validColor color \<longrightarrow>
              response_of (post_place cfg ip req_body ts db_err s)
                = Some (error_json 400 ''invalid color''))
         \<and> (validColor color \<longrightarrow>
              (ts - last_of (table_of (placeCooldown s)) ip < PLACE_COOLDOWN_MS cfg \<longrightarrow>
                 response_of (post_place cfg ip req_body ts db_err s)
                   = Some (error_json 429 ''cooldown''))
            \<and> (PLACE_COOLDOWN_MS cfg \<le> ts - last_of (table_of (placeCooldown s)) ip \<longrightarrow>
                 response_of (post_place cfg ip req_body ts True s) = Some (error_json 500 ''db'')
                 \<and> response_of (post_place cfg ip req_body ts False s) = Some ok_json))))"
  (is "?D \<longrightarrow> ?R")
proof
  assume d: ?D
  have invalid: "response_of (post_place cfg ip req_body ts db_err s) =
      Some (error_json 400 (case e of InvalidCoords \<Rightarrow> ''invalid coords''
          | OutOfBounds \<Rightarrow> ''out of bounds'' | InvalidColor \<Rightarrow> ''invalid color''))"
    if "check_place cfg x y color = Inl e" for e
    using d that by (simp add: post_place_invalid response_of_def)
  have valid: "response_of (post_place cfg ip req_body ts e s) =
      Some (if ts - last_of (table_of (placeCooldown s)) ip < PLACE_COOLDOWN_MS cfg
            then error_json 429 ''cooldown'' else if e then error_json 500 ''db'' else ok_json)"
    if "check_place cfg x y color = Inr (i, j, c)" for c e
    using d that by (simp add: post_place_valid response_of_def)
  have not_finite: "\<not> Number_isInteger x \<or> \<not> Number_isInteger y"
    if "x \<in> {JInfinity, JNegInfinity, JNaN} \<or> y \<in> {JInfinity, JNegInfinity, JNaN}"
    using that by (auto simp: Number_isInteger_def)
  show ?R
    using invalid[of InvalidCoords] invalid[of OutOfBounds] invalid[of InvalidColor] valid
      not_finite
    by (auto simp: check_place_not_integer check_place_integers)
qed

theorem post_place_responses_witness:
  "response_of (post_place default_config ''203.0.113.7''
       (JObj [(''x'', JStr ''10''), (''y'', JNum 20), (''color'', JStr ''#ff0000'')])
       1700000000000 False two_clients) = Some (error_json 400 ''invalid coords'')
   \<and> response_of (post_place default_config ''203.0.113.7''
       (JObj [(''x'', JInfinity), (''y'', JNum 20), (''color'', JStr ''#ff0000'')])
       1700000000000 False two_clients) = Some (error_json 400 ''invalid coords'')
   \<and> double_range 300 \<and> double_range 20
   \<and> response_of (post_place default_config ''203.0.113.7'' (place_message 300 20 ''#ff0000'')
       1700000000000 False two_clients) = Some (error_json 400 ''out of bounds'')
   \<and> response_of (post_place default_config ''203.0.113.7'' (place_message 10 20 ''#ff00'')
       1700000000000 False two_clients) = Some (error_json 400 ''invalid color'')
   \<and> response_of (post_place default_config ''203.0.113.7'' (place_message 11 20 ''#00ff00'')
       1700000001000 False after_rest_place) = Some (error_json 429 ''cooldown'')
   \<and> response_of (post_place default_config ''203.0.113.7'' (place_message 10 20 ''#ff0000'')
       1700000000000 True two_clients) = Some (error_json 500 ''db'')
   \<and> response_of (post_place default_config ''203.0.113.7'' (place_message 10 20 ''#ff0000'')
       1700000000000 False two_clients) = Some ok_json"
proof -
  have r: "double_range 300" "double_range 20" "double_range 10" "double_range 11"
    by (simp_all add: double_range_def MAX_VALUE_def)
  show ?thesis
    using r
      post_place_responses [where req_body = "JObj [(''x'', JStr ''10''), (''y'', JNum 20),
          (''color'', JStr ''#ff0000'')]" and x = "JStr ''10''" and y = "JNum 20"
        and color = "JStr ''#ff0000''" and cfg = default_config and ip = "''203.0.113.7''"
        and ts = 1700000000000 and db_err = False and s = two_clients]
      post_place_responses [where req_body = "JObj [(''x'', JInfinity), (''y'', JNum 20),
          (''color'', JStr ''#ff0000'')]" and x = JInfinity and y = "JNum 20"
        and color = "JStr ''#ff0000''" and cfg = default_config and ip = "''203.0.113.7''"
        and ts = 1700000000000 and db_err = False and s = two_clients]
      post_place_responses [where req_body = "place_message 300 20 ''#ff0000''" and x = "JNum 300"
        and y = "JNum 20" and color = "JStr ''#ff0000''" and cfg = default_config
        and ip = "''203.0.113.7''" and ts = 1700000000000 and db_err = False and s = two_clients
        and i = 300 and j = 20]
      post_place_responses [where req_body = "place_message 10 20 ''#ff00''" and x = "JNum 10"
        and y = "JNum 20" and color = "JStr ''#ff00''" and cfg = default_config
        and ip = "''203.0.113.7''" and ts = 1700000000000 and db_err = False and s = two_clients
        and i = 10 and j = 20]
      post_place_responses [where req_body = "place_message 11 20 ''#00ff00''" and x = "JNum 11"
        and y = "JNum 20" and color = "JStr ''#00ff00''" and cfg = default_config
        and ip = "''203.0.113.7''" and ts = 1700000001000 and db_err = False
        and s = after_rest_place and i = 11 and j = 20]
      post_place_responses [where req_body = "place_message 10 20 ''#ff0000''" and x = "JNum 10"
        and y = "JNum 20" and color = "JStr ''#ff0000''" and cfg = default_config
        and ip = "''203.0.113.7''" and ts = 1700000000000 and s = two_clients
        and i = 10 and j = 20]
    by (simp add: two_clients_def after_rest_place_def place_message_def default_config_def
        Number_isInteger_def hex_class_def table_of_def last_of_def)
qed

section \<open>The cooldown of an address\<close>




section \<open>Rejected requests\<close>

text \<open>
  Claim C3. A place request that is rejected for invalid input or for cooldown leaves the
  table of pixels as it was and emits no \<open>pixel\<close> event to anyone. On the REST path
  these are the requests answered 400 or 429, and nothing at all is emitted; on the
  socket path they are the requests that fail the guards or arrive inside the cooldown
  window, and the only emission is \<open>placeDenied\<close> to the sender.
\<close>

theorem rejected_requests_change_nothing:
  "(post_place cfg ip req_body ts db_err s = Inr (s', resp, out) \<and>
      (status resp = 400 \<or> status resp = 429)
      \<longrightarrow> pixels s' = pixels s \<and> out = [])
   \<and> (destructure data = Inr (x, y, color) \<and>
       ((\<forall>r. check_place cfg x y color \<noteq> Inr r) \<or>
        ts - last_of (table_of (socketCooldown s)) (handshake_address sock) < PLACE_COOLDOWN_MS cfg)
      \<longrightarrow> pixels (fst (on_place cfg sock data ts db_err s)) = pixels s
        \<and> (\<forall>k i j c. (k, Pixel i j c) \<notin> set (snd (on_place cfg sock data ts db_err s))))"
  (is "(?rest_rejected \<longrightarrow> ?rest_same) \<and> (?socket_rejected \<longrightarrow> ?socket_same)")
proof (intro conjI)
  show "?rest_rejected \<longrightarrow> ?rest_same"
  proof
    assume h: ?rest_rejected
    then obtain x' y' color' where d: "destructure req_body = Inr (x', y', color')"
      by (cases "destructure req_body") (auto simp: post_place_def)
    show ?rest_same
    proof (cases rule: check_place_cases[of cfg x' y' color'])
      case (invalid e)
      with h d show ?thesis by (simp add: post_place_invalid)
    next
      case (valid i j c)
      with h d show ?thesis
        by (auto simp: post_place_valid split: if_splits)
    qed
  qed
  show "?socket_rejected \<longrightarrow> ?socket_same"
  proof
    assume h: ?socket_rejected
    show ?socket_same
    proof (cases rule: check_place_cases[of cfg x y color])
      case (invalid e)
      with h show ?thesis by (simp add: on_place_invalid)
    next
      case (valid i j c)
      with h show ?thesis by (auto simp: on_place_valid)
    qed
  qed
qed

theorem rejected_requests_change_nothing_witness:
  "post_place default_config ''203.0.113.7'' (place_message (- 1) 20 ''#ff0000'') 1700000001000 False
       after_rest_place
     = Inr (after_rest_place, error_json 400 ''out of bounds'', [])
   \<and> status (error_json 400 ''out of bounds'') = 400
   \<and> post_place default_config ''203.0.113.7'' (place_message 11 20 ''#00ff00'') 1700000001000 False
       after_rest_place
     = Inr (after_rest_place, error_json 429 ''cooldown'', [])
   \<and> status (error_json 429 ''cooldown'') = 429
   \<and> destructure (place_message 11 20 ''#00ff00'') = Inr (JNum 11, JNum 20, JStr ''#00ff00'')
   \<and> 1700000001000 - last_of (table_of (socketCooldown after_first_place))
         (handshake_address socket_a) < PLACE_COOLDOWN_MS default_config
   \<and> pixels (fst (on_place default_config socket_a (place_message 11 20 ''#00ff00'') 1700000001000
         False after_first_place)) = pixels after_first_place
   \<and> snd (on_place default_config socket_a (place_message 11 20 ''#00ff00'') 1700000001000
         False after_first_place) = [(socket_a, PlaceDenied ''cooldown'')]
   \<and> on_place default_config socket_a (place_message 300 20 ''#00ff00'') 1700000001000
         False after_first_place = (after_first_place, [])"
  using
    rejected_requests_change_nothing [where cfg = default_config and ip = "''203.0.113.7''"
      and req_body = "place_message (- 1) 20 ''#ff0000''" and ts = 1700000001000 and db_err = False
      and s = after_rest_place and s' = after_rest_place
      and resp = "error_json 400 ''out of bounds''" and out = "[]"]
    rejected_requests_change_nothing [where cfg = default_config and ip = "''203.0.113.7''"
      and req_body = "place_message 11 20 ''#00ff00''" and ts = 1700000001000 and db_err = False
      and s = after_rest_place and s' = after_rest_place
      and resp = "error_json 429 ''cooldown''" and out = "[]"]
    rejected_requests_change_nothing [where cfg = default_config and ts = 1700000001000
      and db_err = False and s = after_first_place
      and data = "place_message 11 20 ''#00ff00''" and x = "JNum 11" and y = "JNum 20"
      and color = "JStr ''#00ff00''" and sock = socket_a]
    rejected_requests_change_nothing [where cfg = default_config and ts = 1700000001000
      and db_err = False and s = after_first_place
      and data = "place_message 300 20 ''#00ff00''" and x = "JNum 300" and y = "JNum 20"
      and color = "JStr ''#00ff00''" and sock = socket_a]
  by (simp add: after_first_place_def after_rest_place_def socket_a_def socket_b_def
      place_message_def default_config_def check_place_def hex_class_def on_place_def
      on_place_try_def post_place_def cooldown_step_def table_of_def last_of_def io_emit_def
      socket_emit_def Let_def)

section \<open>The cooldown entry of the requester\<close>

text \<open>
  Claim C4. On either path, the cooldown entry of the requester (and of everybody else) is
  left as it was when the request fails the guards or is denied for cooldown; it is set
  to the current time when the request passes both, whether or not the statement sent
  to the database then fails: after a storage failure the entry holds the current time
  and the table of pixels is unchanged.
\<close>

theorem cooldown_entry_after_place:
  "(destructure req_body = Inr (x, y, color) \<and>
      ((\<forall>r. check_place cfg x y color \<noteq> Inr r) \<or>
       ts - last_of (table_of (placeCooldown s)) ip < PLACE_COOLDOWN_MS cfg)
    \<longrightarrow> (\<forall>a. entry (placeCooldown (step cfg (PostPlace ip req_body ts db_err) s)) a
               = entry (placeCooldown s) a))
   \<and> (destructure req_body = Inr (x, y, color) \<and> check_place cfg x y color = Inr (i, j, c) \<and>
      PLACE_COOLDOWN_MS cfg \<le> ts - last_of (table_of (placeCooldown s)) ip
    \<longrightarrow> entry (placeCooldown (step cfg (PostPlace ip req_body ts db_err) s)) ip = Some ts
        \<and> (\<exists>s'. post_place cfg ip req_body ts True s = Inr (s', error_json 500 ''db'', [])
              \<and> entry (placeCooldown s') ip = Some ts \<and> pixels s' = pixels s))
   \<and> (destructure data = Inr (x, y, color) \<and>
      ((\<forall>r. check_place cfg x y color \<noteq> Inr r) \<or>
       ts - last_of (table_of (socketCooldown s)) (handshake_address sock) < PLACE_COOLDOWN_MS cfg)
    \<longrightarrow> (\<forall>a. entry (socketCooldown (step cfg (SocketPlace sock data ts db_err) s)) a
               = entry (socketCooldown s) a))
   \<and> (destructure data = Inr (x, y, color) \<and> check_place cfg x y color = Inr (i, j, c) \<and>
      PLACE_COOLDOWN_MS cfg \<le> ts - last_of (table_of (socketCooldown s)) (handshake_address sock)
    \<longrightarrow> entry (socketCooldown (step cfg (SocketPlace sock data ts db_err) s))
            (handshake_address sock) = Some ts
        \<and> entry (socketCooldown (fst (on_place cfg sock data ts True s)))
            (handshake_address sock) = Some ts
        \<and> pixels (fst (on_place cfg sock data ts True s)) = pixels s)"
  (is "(?rest_rejected \<longrightarrow> ?rest_kept) \<and> (?rest_admitted \<longrightarrow> ?rest_set)
     \<and> (?socket_rejected \<longrightarrow> ?socket_kept) \<and> (?socket_admitted \<longrightarrow> ?socket_set)")
proof (intro conjI)
  show "?rest_rejected \<longrightarrow> ?rest_kept"
  proof
    assume h: ?rest_rejected
    show ?rest_kept
    proof (cases rule: check_place_cases[of cfg x y color])
      case (invalid e)
      with h show ?thesis by (simp add: post_place_invalid)
    next
      case (valid i' j' c')
      with h show ?thesis by (simp add: post_place_valid)
    qed
  qed
  show "?rest_admitted \<longrightarrow> ?rest_set"
    by (simp add: post_place_valid)
  show "?socket_rejected \<longrightarrow> ?socket_kept"
  proof
    assume h: ?socket_rejected
    show ?socket_kept
    proof (cases rule: check_place_cases[of cfg x y color])
      case (invalid e)
      with h show ?thesis by (simp add: on_place_invalid)
    next
      case (valid i' j' c')
      with h show ?thesis by (simp add: on_place_valid)
    qed
  qed
  show "?socket_admitted \<longrightarrow> ?socket_set"
    by (simp add: on_place_valid)
qed

theorem cooldown_entry_after_place_witness:
  "entry (placeCooldown (step default_config
       (PostPlace ''203.0.113.7'' (place_message 10 20 ''red'') 1700000000000 False)
       after_first_place)) ''203.0.113.7'' = None
   \<and> entry (placeCooldown (step default_config
       (PostPlace ''203.0.113.7'' (place_message 10 20 ''#ff0000'') 1700000000000 True)
       after_first_place)) ''203.0.113.7'' = Some 1700000000000
   \<and> pixels (step default_config
       (PostPlace ''203.0.113.7'' (place_message 12 20 ''#ff0000'') 1700000000000 True)
       after_first_place) = pixels after_first_place
   \<and> entry (socketCooldown (step default_config
       (SocketPlace socket_a (place_message 11 20 ''#00ff00'') 1700000001000 False)
       after_first_place)) ''203.0.113.7'' = Some 1700000000000
   \<and> entry (socketCooldown (step default_config
       (SocketPlace socket_a (place_message 11 20 ''#00ff00'') 1700000005000 True)
       after_first_place)) ''203.0.113.7'' = Some 1700000005000"
  using
    cooldown_entry_after_place [where req_body = "place_message 10 20 ''red''" and x = "JNum 10"
      and y = "JNum 20" and color = "JStr ''red''" and cfg = default_config
      and ts = 1700000000000 and s = after_first_place and ip = "''203.0.113.7''"
      and db_err = False]
    cooldown_entry_after_place [where req_body = "place_message 10 20 ''#ff0000''"
      and x = "JNum 10" and y = "JNum 20" and color = "JStr ''#ff0000''" and cfg = default_config
      and ts = 1700000000000 and s = after_first_place and ip = "''203.0.113.7''"
      and db_err = True and i = 10 and j = 20 and c = "''#ff0000''"]
    cooldown_entry_after_place [where req_body = "place_message 12 20 ''#ff0000''"
      and x = "JNum 12" and y = "JNum 20" and color = "JStr ''#ff0000''" and cfg = default_config
      and ts = 1700000000000 and s = after_first_place and ip = "''203.0.113.7''"
      and db_err = True and i = 12 and j = 20 and c = "''#ff0000''"]
    cooldown_entry_after_place [where data = "place_message 11 20 ''#00ff00''"
      and x = "JNum 11" and y = "JNum 20" and color = "JStr ''#00ff00''" and cfg = default_config
      and ts = 1700000001000 and s = after_first_place and sock = socket_a and db_err = False]
    cooldown_entry_after_place [where data = "place_message 11 20 ''#00ff00''"
      and x = "JNum 11" and y = "JNum 20" and color = "JStr ''#00ff00''" and cfg = default_config
      and ts = 1700000005000 and s = after_first_place and sock = socket_a and db_err = True
      and i = 11 and j = 20 and c = "''#00ff00''"]
  by (simp add: after_first_place_def socket_a_def socket_b_def place_message_def
      default_config_def check_place_def hex_class_def on_place_def on_place_try_def post_place_def
      cooldown_step_def table_of_def last_of_def io_emit_def socket_emit_def Let_def entry_def)

section \<open>Structural validation\<close>

text \<open>
  Claim C5. The guards of a place request pass exactly when \<open>x\<close> and \<open>y\<close> are integers
  with \<open>0 \<le> x < W\<close> and \<open>0 \<le> y < H\<close> and \<open>color\<close> is a string made of \<open>#\<close> and
  exactly six hexadecimal digits of either case. A request that fails them is rejected
  with nothing changed, the cooldown objects included (not even created): the REST
  handler answers 400 and the socket handler emits nothing. In particular the colours
  \<open>red\<close> and \<open>#ff00\<close> and the coordinates \<open>x = -1\<close> and \<open>x = W\<close> never pass.
\<close>

theorem structural_validation:
  "((\<exists>r. check_place cfg x y color = Inr r) \<longleftrightarrow>
      (\<exists>i j ds. x = JNum (of_int i) \<and> y = JNum (of_int j) \<and>
         0 \<le> i \<and> i < CANVAS_W cfg \<and> 0 \<le> j \<and> j < CANVAS_H cfg \<and>
         color = JStr (CHR ''#'' # ds) \<and> length ds = 6 \<and>
         (\<forall>d\<in>set ds. d \<in> set ''0123456789abcdefABCDEF'')))
   \<and> (destructure data = Inr (x, y, color) \<and> (\<forall>r. check_place cfg x y color \<noteq> Inr r) \<longrightarrow>
        (\<exists>msg. post_place cfg ip data ts db_err s = Inr (s, error_json 400 msg, []))
        \<and> on_place cfg sock data ts db_err s = (s, []))
   \<and> (\<forall>r. check_place cfg x y (JStr ''red'') \<noteq> Inr r)
   \<and> (\<forall>r. check_place cfg x y (JStr ''#ff00'') \<noteq> Inr r)
   \<and> (\<forall>r. check_place cfg (JNum (- 1)) y color \<noteq> Inr r)
   \<and> (\<forall>r. check_place cfg (JNum (of_int (CANVAS_W cfg))) y color \<noteq> Inr r)"
  (is "(?passes \<longleftrightarrow> ?well_formed) \<and> (?fails \<longrightarrow> ?rejected)
     \<and> ?red \<and> ?short \<and> ?negative \<and> ?width")
proof (intro conjI)
  show "?passes \<longleftrightarrow> ?well_formed"
  proof
    assume ?passes
    then obtain i j c where "check_place cfg x y color = Inr (i, j, c)" by auto
    then show ?well_formed
      unfolding check_place_Inr_iff validColor_iff by blast
  next
    assume ?well_formed
    then obtain i j ds where h: "x = JNum (of_int i)" "y = JNum (of_int j)"
        "0 \<le> i" "i < CANVAS_W cfg" "0 \<le> j" "j < CANVAS_H cfg"
        "color = JStr (CHR ''#'' # ds)" "length ds = 6"
        "\<forall>d\<in>set ds. d \<in> set ''0123456789abcdefABCDEF''"
      by blast
    then have "validColor (JStr (CHR ''#'' # ds))"
      unfolding validColor_iff by blast
    with h have "check_place cfg x y color = Inr (i, j, CHR ''#'' # ds)"
      unfolding check_place_Inr_iff by simp
    then show ?passes by blast
  qed
  show "?fails \<longrightarrow> ?rejected"
  proof
    assume h: ?fails
    then obtain e where e: "check_place cfg x y color = Inl e"
      by (cases "check_place cfg x y color") auto
    from h have d: "destructure data = Inr (x, y, color)" by simp
    show ?rejected
      using post_place_invalid[OF d e] on_place_invalid[OF d e] by blast
  qed
  show ?red
    by (auto simp: check_place_Inr_iff)
  show ?short
    by (auto simp: check_place_Inr_iff)
  show ?negative
  proof (intro allI notI)
    fix r assume "check_place cfg (JNum (- 1)) y color = Inr r"
    then obtain i j c where "check_place cfg (JNum (- 1)) y color = Inr (i, j, c)"
      by (cases r) auto
    then have "(of_int i :: rat) = - 1" "0 \<le> i"
      unfolding check_place_Inr_iff by simp_all
    then show False by simp
  qed
  show ?width
    by (auto simp: check_place_Inr_iff)
qed

theorem structural_validation_witness:
  "check_place default_config (JNum 10) (JNum 20) (JStr ''#ff0000'') = Inr (10, 20, ''#ff0000'')
   \<and> destructure (place_message 300 20 ''#ff0000'') = Inr (JNum 300, JNum 20, JStr ''#ff0000'')
   \<and> check_place default_config (JNum 300) (JNum 20) (JStr ''#ff0000'') = Inl OutOfBounds
   \<and> post_place default_config ''203.0.113.7'' (place_message 300 20 ''#ff0000'') 1700000000000
        False two_clients = Inr (two_clients, error_json 400 ''out of bounds'', [])
   \<and> on_place default_config socket_a (place_message 300 20 ''#ff0000'') 1700000000000
        False two_clients = (two_clients, [])"
  using structural_validation [where cfg = default_config and x = "JNum 300" and y = "JNum 20"
      and color = "JStr ''#ff0000''" and data = "place_message 300 20 ''#ff0000''"
      and ip = "''203.0.113.7''" and ts = 1700000000000 and db_err = False and s = two_clients
      and sock = socket_a]
  by (simp add: check_place_def default_config_def hex_class_def place_message_def
      post_place_def on_place_def on_place_try_def)

section \<open>Idempotence of the upsert\<close>

text \<open>
  Claim C6. The upsert is idempotent: running it twice with the same coordinate, colour
  and timestamp gives the table that running it once gives. And when an address submits
  the same \<open>(x, y, color)\<close> again once its cooldown has passed, the request is accepted
  and the table keeps its values: the snapshot \<open>(x, y, color)\<close> of all rows is the same,
  every other coordinate keeps its rows, and the row of the coordinate differs in its
  timestamp only, which is now the one of the second request (not an earlier one, the
  cooldown being non-negative). This holds on the socket path (second conjunct) and on
  the REST path (third conjunct).
\<close>

theorem upsert_idempotent:
  "upsert x y c ts (upsert x y c ts rows) = upsert x y c ts rows
   \<and> (one_row_per_coordinate (pixels s) \<and>
       destructure data = Inr (vx, vy, color) \<and> check_place cfg vx vy color = Inr (i, j, k) \<and>
       PLACE_COOLDOWN_MS cfg \<le> ts1 - last_of (table_of (socketCooldown s)) (handshake_address sock) \<and>
       PLACE_COOLDOWN_MS cfg \<le> ts2 - ts1 \<and>
       s1 = step cfg (SocketPlace sock data ts1 False) s \<and>
       s2 = step cfg (SocketPlace sock data ts2 False) s1 \<longrightarrow>
         snd (on_place cfg sock data ts2 False s1) = map (\<lambda>q. (q, Pixel i j k)) (sockets s1)
         \<and> rows_at i j (pixels s1)
             = [\<lparr>row_x = i, row_y = j, row_color = k, row_last_modified = ts1\<rparr>]
         \<and> rows_at i j (pixels s2)
             = [\<lparr>row_x = i, row_y = j, row_color = k, row_last_modified = ts2\<rparr>]
         \<and> select_pixels (pixels s2) = select_pixels (pixels s1)
         \<and> (\<forall>x' y'. (x', y') \<noteq> (i, j) \<longrightarrow>
               rows_at x' y' (pixels s2) = rows_at x' y' (pixels s1))
         \<and> (0 \<le> PLACE_COOLDOWN_MS cfg \<longrightarrow> ts1 \<le> ts2))
   \<and> (one_row_per_coordinate (pixels s) \<and>
       destructure data = Inr (vx, vy, color) \<and> check_place cfg vx vy color = Inr (i, j, k) \<and>
       PLACE_COOLDOWN_MS cfg \<le> ts1 - last_of (table_of (placeCooldown s)) ip \<and>
       PLACE_COOLDOWN_MS cfg \<le> ts2 - ts1 \<and>
       s1 = step cfg (PostPlace ip data ts1 False) s \<and>
       s2 = step cfg (PostPlace ip data ts2 False) s1 \<longrightarrow>
         response_of (post_place cfg ip data ts2 False s1) = Some ok_json
         \<and> rows_at i j (pixels s1)
             = [\<lparr>row_x = i, row_y = j, row_color = k, row_last_modified = ts1\<rparr>]
         \<and> rows_at i j (pixels s2)
             = [\<lparr>row_x = i, row_y = j, row_color = k, row_last_modified = ts2\<rparr>]
         \<and> select_pixels (pixels s2) = select_pixels (pixels s1)
         \<and> (\<forall>x' y'. (x', y') \<noteq> (i, j) \<longrightarrow>
               rows_at x' y' (pixels s2) = rows_at x' y' (pixels s1))
         \<and> (0 \<le> PLACE_COOLDOWN_MS cfg \<longrightarrow> ts1 \<le> ts2))"
  (is "?idempotent \<and> (?socket_twice \<longrightarrow> ?socket_same) \<and> (?rest_twice \<longrightarrow> ?rest_same)")
proof (intro conjI)
  show ?idempotent
    by (rule upsert_idem)
  show "?socket_twice \<longrightarrow> ?socket_same"
  proof (intro impI, elim conjE)
    assume inv: "one_row_per_coordinate (pixels s)"
      and d: "destructure data = Inr (vx, vy, color)"
      and v: "check_place cfg vx vy color = Inr (i, j, k)"
      and a1: "PLACE_COOLDOWN_MS cfg
        \<le> ts1 - last_of (table_of (socketCooldown s)) (handshake_address sock)"
      and a2: "PLACE_COOLDOWN_MS cfg \<le> ts2 - ts1"
      and s1: "s1 = step cfg (SocketPlace sock data ts1 False) s"
      and s2: "s2 = step cfg (SocketPlace sock data ts2 False) s1"
    have p1: "pixels s1 = upsert i j k ts1 (pixels s)"
      and l1: "last_of (table_of (socketCooldown s1)) (handshake_address sock) = ts1"
      unfolding s1 by (rule socket_write_stored[OF d v a1])+
    from a2 l1 have a2': "PLACE_COOLDOWN_MS cfg
        \<le> ts2 - last_of (table_of (socketCooldown s1)) (handshake_address sock)"
      by simp
    have p2: "pixels s2 = upsert i j k ts2 (pixels s1)"
      unfolding s2 by (rule socket_write_stored[OF d v a2'])
    from d v a2' have "snd (on_place cfg sock data ts2 False s1)
        = map (\<lambda>q. (q, Pixel i j k)) (sockets s1)"
      by (simp add: on_place_valid)
    with resubmitted_cell[OF inv p1 p2] a2 show ?socket_same
      by auto
  qed
  show "?rest_twice \<longrightarrow> ?rest_same"
  proof (intro impI, elim conjE)
    assume inv: "one_row_per_coordinate (pixels s)"
      and d: "destructure data = Inr (vx, vy, color)"
      and v: "check_place cfg vx vy color = Inr (i, j, k)"
      and a1: "PLACE_COOLDOWN_MS cfg \<le> ts1 - last_of (table_of (placeCooldown s)) ip"
      and a2: "PLACE_COOLDOWN_MS cfg \<le> ts2 - ts1"
      and s1: "s1 = step cfg (PostPlace ip data ts1 False) s"
      and s2: "s2 = step cfg (PostPlace ip data ts2 False) s1"
    have p1: "pixels s1 = upsert i j k ts1 (pixels s)"
      and l1: "last_of (table_of (placeCooldown s1)) ip = ts1"
      unfolding s1 by (rule rest_write_stored[OF d v a1])+
    from a2 l1 have a2': "PLACE_COOLDOWN_MS cfg \<le> ts2 - last_of (table_of (placeCooldown s1)) ip"
      by simp
    have p2: "pixels s2 = upsert i j k ts2 (pixels s1)"
      unfolding s2 by (rule rest_write_stored[OF d v a2'])
    from d v a2' have "response_of (post_place cfg ip data ts2 False s1) = Some ok_json"
      by (simp add: post_place_valid response_of_def)
    with resubmitted_cell[OF inv p1 p2] a2 show ?rest_same
      by auto
  qed
qed

theorem upsert_idempotent_witness:
  "one_row_per_coordinate (pixels two_clients)
   \<and> step default_config (SocketPlace socket_a (place_message 10 20 ''#ff0000'') 1700000000000
        False) two_clients = after_first_place
   \<and> snd (on_place default_config socket_a (place_message 10 20 ''#ff0000'') 1700000005000 False
        after_first_place)
       = [(socket_a, Pixel 10 20 ''#ff0000''), (socket_b, Pixel 10 20 ''#ff0000'')]
   \<and> rows_at 10 20 (pixels (step default_config
        (SocketPlace socket_a (place_message 10 20 ''#ff0000'') 1700000005000 False)
        after_first_place))
       = [\<lparr>row_x = 10, row_y = 20, row_color = ''#ff0000'', row_last_modified = 1700000005000\<rparr>]
   \<and> select_pixels (pixels (step default_config
        (SocketPlace socket_a (place_message 10 20 ''#ff0000'') 1700000005000 False)
        after_first_place))
       = select_pixels (pixels after_first_place)
   \<and> step default_config (PostPlace ''203.0.113.7'' (place_message 10 20 ''#ff0000'')
        1700000000000 False) two_clients = after_rest_place
   \<and> response_of (post_place default_config ''203.0.113.7'' (place_message 10 20 ''#ff0000'')
        1700000005000 False after_rest_place) = Some ok_json
   \<and> rows_at 10 20 (pixels (step default_config
        (PostPlace ''203.0.113.7'' (place_message 10 20 ''#ff0000'') 1700000005000 False)
        after_rest_place))
       = [\<lparr>row_x = 10, row_y = 20, row_color = ''#ff0000'', row_last_modified = 1700000005000\<rparr>]"
proof -
  have s1: "step default_config (SocketPlace socket_a (place_message 10 20 ''#ff0000'')
        1700000000000 False) two_clients = after_first_place"
    by (simp add: two_clients_def after_first_place_def socket_a_def place_message_def
        default_config_def check_place_def hex_class_def on_place_def on_place_try_def
        cooldown_step_def table_of_def last_of_def io_emit_def Let_def)
  have r1: "step default_config (PostPlace ''203.0.113.7'' (place_message 10 20 ''#ff0000'')
        1700000000000 False) two_clients = after_rest_place"
    by (simp add: two_clients_def after_rest_place_def place_message_def
        default_config_def check_place_def hex_class_def post_place_def
        cooldown_step_def table_of_def last_of_def io_emit_def Let_def)
  have inv: "one_row_per_coordinate (pixels two_clients)"
    by (simp add: two_clients_def one_row_per_coordinate_def)
  show ?thesis
    using inv s1 r1
      upsert_idempotent [where s = two_clients and data = "place_message 10 20 ''#ff0000''"
        and vx = "JNum 10" and vy = "JNum 20" and color = "JStr ''#ff0000''"
        and cfg = default_config and i = 10 and j = 20 and k = "''#ff0000''"
        and ?ts1.0 = 1700000000000 and ?ts2.0 = 1700000005000 and sock = socket_a
        and ?s1.0 = after_first_place
        and ?s2.0 = "step default_config
          (SocketPlace socket_a (place_message 10 20 ''#ff0000'') 1700000005000 False)
          after_first_place"]
      upsert_idempotent [where s = two_clients and data = "place_message 10 20 ''#ff0000''"
        and vx = "JNum 10" and vy = "JNum 20" and color = "JStr ''#ff0000''"
        and cfg = default_config and i = 10 and j = 20 and k = "''#ff0000''"
        and ?ts1.0 = 1700000000000 and ?ts2.0 = 1700000005000 and ip = "''203.0.113.7''"
        and ?s1.0 = after_rest_place
        and ?s2.0 = "step default_config
          (PostPlace ''203.0.113.7'' (place_message 10 20 ''#ff0000'') 1700000005000 False)
          after_rest_place"]
    by (simp add: two_clients_def after_first_place_def after_rest_place_def socket_a_def
        socket_b_def place_message_def default_config_def check_place_def hex_class_def
        table_of_def last_of_def del: step.simps)
qed

section \<open>One row per coordinate, last write wins\<close>

text \<open>
  Claim C7. In every state the server reaches, the table holds at most one row for each
  coordinate. An accepted write, over the socket or over REST, leaves the coordinate
  with exactly one row, made of the colour and the timestamp of that write, whatever
  the table held there before; so after two accepted writes to one coordinate in
  sequence the row is the one of the later write, with no field of the earlier one.
\<close>

theorem one_row_last_write_wins:
  "(reachable cfg s \<longrightarrow> one_row_per_coordinate (pixels s))
   \<and> (reachable cfg s \<and>
       destructure d = Inr (vx, vy, color) \<and> check_place cfg vx vy color = Inr (i, j, k) \<and>
       PLACE_COOLDOWN_MS cfg \<le> ts - last_of (table_of (socketCooldown s)) (handshake_address sock) \<and>
       s' = step cfg (SocketPlace sock d ts False) s \<longrightarrow>
         rows_at i j (pixels s')
           = [\<lparr>row_x = i, row_y = j, row_color = k, row_last_modified = ts\<rparr>])
   \<and> (reachable cfg s \<and>
       destructure d = Inr (vx, vy, color) \<and> check_place cfg vx vy color = Inr (i, j, k) \<and>
       PLACE_COOLDOWN_MS cfg \<le> ts - last_of (table_of (placeCooldown s)) ip \<and>
       s' = step cfg (PostPlace ip d ts False) s \<longrightarrow>
         rows_at i j (pixels s')
           = [\<lparr>row_x = i, row_y = j, row_color = k, row_last_modified = ts\<rparr>])
   \<and> (reachable cfg s \<and>
       destructure d1 = Inr (x1, y1, col1) \<and> check_place cfg x1 y1 col1 = Inr (i, j, k1) \<and>
       destructure d2 = Inr (x2, y2, col2) \<and> check_place cfg x2 y2 col2 = Inr (i, j, k2) \<and>
       PLACE_COOLDOWN_MS cfg
         \<le> ts1 - last_of (table_of (socketCooldown s)) (handshake_address sock1) \<and>
       s1 = step cfg (SocketPlace sock1 d1 ts1 False) s \<and>
       PLACE_COOLDOWN_MS cfg
         \<le> ts2 - last_of (table_of (socketCooldown s1)) (handshake_address sock2) \<and>
       s2 = step cfg (SocketPlace sock2 d2 ts2 False) s1 \<longrightarrow>
         rows_at i j (pixels s1)
           = [\<lparr>row_x = i, row_y = j, row_color = k1, row_last_modified = ts1\<rparr>]
         \<and> rows_at i j (pixels s2)
           = [\<lparr>row_x = i, row_y = j, row_color = k2, row_last_modified = ts2\<rparr>])"
  (is "?invariant \<and> (?socket_write \<longrightarrow> ?cell) \<and> (?rest_write \<longrightarrow> ?cell)
     \<and> (?two_writes \<longrightarrow> ?later)")
proof (intro conjI)
  show ?invariant
    by (simp add: reachable_one_row)
  show "?socket_write \<longrightarrow> ?cell"
  proof (intro impI, elim conjE)
    assume r: "reachable cfg s" and d: "destructure d = Inr (vx, vy, color)"
      and v: "check_place cfg vx vy color = Inr (i, j, k)"
      and a: "PLACE_COOLDOWN_MS cfg
        \<le> ts - last_of (table_of (socketCooldown s)) (handshake_address sock)"
      and s': "s' = step cfg (SocketPlace sock d ts False) s"
    have "pixels s' = upsert i j k ts (pixels s)"
      unfolding s' by (rule socket_write_stored[OF d v a])
    with reachable_one_row[OF r] show ?cell
      by (simp add: rows_at_upsert_same)
  qed
  show "?rest_write \<longrightarrow> ?cell"
  proof (intro impI, elim conjE)
    assume r: "reachable cfg s" and d: "destructure d = Inr (vx, vy, color)"
      and v: "check_place cfg vx vy color = Inr (i, j, k)"
      and a: "PLACE_COOLDOWN_MS cfg \<le> ts - last_of (table_of (placeCooldown s)) ip"
      and s': "s' = step cfg (PostPlace ip d ts False) s"
    have "pixels s' = upsert i j k ts (pixels s)"
      unfolding s' by (rule rest_write_stored[OF d v a])
    with reachable_one_row[OF r] show ?cell
      by (simp add: rows_at_upsert_same)
  qed
  show "?two_writes \<longrightarrow> ?later"
  proof (intro impI, elim conjE)
    assume r: "reachable cfg s"
      and d1: "destructure d1 = Inr (x1, y1, col1)"
      and v1: "check_place cfg x1 y1 col1 = Inr (i, j, k1)"
      and d2: "destructure d2 = Inr (x2, y2, col2)"
      and v2: "check_place cfg x2 y2 col2 = Inr (i, j, k2)"
      and a1: "PLACE_COOLDOWN_MS cfg
        \<le> ts1 - last_of (table_of (socketCooldown s)) (handshake_address sock1)"
      and s1: "s1 = step cfg (SocketPlace sock1 d1 ts1 False) s"
      and a2: "PLACE_COOLDOWN_MS cfg
        \<le> ts2 - last_of (table_of (socketCooldown s1)) (handshake_address sock2)"
      and s2: "s2 = step cfg (SocketPlace sock2 d2 ts2 False) s1"
    have p1: "pixels s1 = upsert i j k1 ts1 (pixels s)"
      unfolding s1 by (rule socket_write_stored[OF d1 v1 a1])
    have p2: "pixels s2 = upsert i j k2 ts2 (pixels s1)"
      unfolding s2 by (rule socket_write_stored[OF d2 v2 a2])
    have inv: "one_row_per_coordinate (pixels s)"
      by (rule reachable_one_row[OF r])
    then have inv1: "one_row_per_coordinate (pixels s1)"
      by (simp add: p1 one_row_upsert)
    from inv have c1: "rows_at i j (pixels s1)
        = [\<lparr>row_x = i, row_y = j, row_color = k1, row_last_modified = ts1\<rparr>]"
      by (simp add: p1 rows_at_upsert_same)
    from inv1 have c2: "rows_at i j (pixels s2)
        = [\<lparr>row_x = i, row_y = j, row_color = k2, row_last_modified = ts2\<rparr>]"
      by (simp add: p2 rows_at_upsert_same)
    from c1 c2 show ?later
      by (rule conjI)
  qed
qed

theorem one_row_last_write_wins_witness:
  "reachable default_config two_clients
   \<and> one_row_per_coordinate (pixels two_clients)
   \<and> step default_config (SocketPlace socket_a (place_message 10 20 ''#ff0000'') 1700000000000
        False) two_clients = after_first_place
   \<and> rows_at 10 20 (pixels after_first_place)
       = [\<lparr>row_x = 10, row_y = 20, row_color = ''#ff0000'', row_last_modified = 1700000000000\<rparr>]
   \<and> rows_at 10 20 (pixels (step default_config
        (SocketPlace socket_b (place_message 10 20 ''#00ff00'') 1700000001000 False)
        after_first_place))
       = [\<lparr>row_x = 10, row_y = 20, row_color = ''#00ff00'', row_last_modified = 1700000001000\<rparr>]
   \<and> rows_at 10 20 (pixels (step default_config
        (PostPlace ''198.51.100.9'' (place_message 10 20 ''#0000ff'') 1700000002000 False)
        two_clients))
       = [\<lparr>row_x = 10, row_y = 20, row_color = ''#0000ff'', row_last_modified = 1700000002000\<rparr>]"
proof -
  have s1: "step default_config (SocketPlace socket_a (place_message 10 20 ''#ff0000'')
        1700000000000 False) two_clients = after_first_place"
    by (simp add: two_clients_def after_first_place_def socket_a_def place_message_def
        default_config_def check_place_def hex_class_def on_place_def on_place_try_def
        cooldown_step_def table_of_def last_of_def io_emit_def Let_def)
  show ?thesis
    using reachable_two_clients s1
      one_row_last_write_wins [where cfg = default_config and s = two_clients
        and ?d1.0 = "place_message 10 20 ''#ff0000''" and ?x1.0 = "JNum 10" and ?y1.0 = "JNum 20"
        and ?col1.0 = "JStr ''#ff0000''" and i = 10 and j = 20 and ?k1.0 = "''#ff0000''"
        and ?d2.0 = "place_message 10 20 ''#00ff00''" and ?x2.0 = "JNum 10" and ?y2.0 = "JNum 20"
        and ?col2.0 = "JStr ''#00ff00''" and ?k2.0 = "''#00ff00''"
        and ?ts1.0 = 1700000000000 and ?ts2.0 = 1700000001000
        and ?sock1.0 = socket_a and ?sock2.0 = socket_b and ?s1.0 = after_first_place
        and ?s2.0 = "step default_config
          (SocketPlace socket_b (place_message 10 20 ''#00ff00'') 1700000001000 False)
          after_first_place"
        and d = "place_message 10 20 ''#0000ff''" and vx = "JNum 10" and vy = "JNum 20"
        and color = "JStr ''#0000ff''" and k = "''#0000ff''" and ts = 1700000002000
        and ip = "''198.51.100.9''"
        and s' = "step default_config
          (PostPlace ''198.51.100.9'' (place_message 10 20 ''#0000ff'') 1700000002000 False)
          two_clients"]
    by (simp add: two_clients_def after_first_place_def socket_a_def socket_b_def
        place_message_def default_config_def check_place_def hex_class_def
        table_of_def last_of_def del: step.simps)
qed

section \<open>What a socket place message emits\<close>

text \<open>
  Claim C8. For a place message on the socket: when it is accepted (valid, admitted by the
  cooldown, stored), every connected socket is sent \<open>pixel {x, y, color}\<close>, the sender
  among them; when it is denied for cooldown, \<open>placeDenied {reason: "cooldown"}\<close> goes
  to the sender and nothing to anyone else; when the input is invalid (or cannot be
  destructured at all), nothing is emitted.
\<close>

theorem socket_place_emissions:
  "(destructure data = Inr (x, y, color) \<and> check_place cfg x y color = Inr (i, j, c) \<and>
      PLACE_COOLDOWN_MS cfg \<le> ts - last_of (table_of (socketCooldown s)) (handshake_address sock) \<longrightarrow>
        snd (on_place cfg sock data ts False s) = map (\<lambda>k. (k, Pixel i j c)) (sockets s)
        \<and> (\<forall>k\<in>set (sockets s). (k, Pixel i j c) \<in> set (snd (on_place cfg sock data ts False s)))
        \<and> (sock \<in> set (sockets s) \<longrightarrow>
             (sock, Pixel i j c) \<in> set (snd (on_place cfg sock data ts False s))))
   \<and> (destructure data = Inr (x, y, color) \<and> check_place cfg x y color = Inr (i, j, c) \<and>
      ts - last_of (table_of (socketCooldown s)) (handshake_address sock) < PLACE_COOLDOWN_MS cfg \<longrightarrow>
        snd (on_place cfg sock data ts db_err s) = [(sock, PlaceDenied ''cooldown'')])
   \<and> (destructure data = Inr (x, y, color) \<and> (\<forall>r. check_place cfg x y color \<noteq> Inr r) \<longrightarrow>
        snd (on_place cfg sock data ts db_err s) = [])
   \<and> (destructure data = Inl e \<longrightarrow> snd (on_place cfg sock data ts db_err s) = [])"
  (is "(?accepted \<longrightarrow> ?broadcast) \<and> (?cooldown \<longrightarrow> ?denied) \<and> (?invalid \<longrightarrow> ?silent)
     \<and> (?throws \<longrightarrow> ?silent)")
proof (intro conjI)
  show "?accepted \<longrightarrow> ?broadcast"
    by (simp add: on_place_valid)
  show "?cooldown \<longrightarrow> ?denied"
    by (simp add: on_place_valid)
  show "?invalid \<longrightarrow> ?silent"
  proof
    assume h: ?invalid
    then obtain e' where "check_place cfg x y color = Inl e'"
      by (cases "check_place cfg x y color") auto
    with h show ?silent
      by (simp add: on_place_invalid)
  qed
  show "?throws \<longrightarrow> ?silent"
    by (simp add: on_place_throws)
qed

theorem socket_place_emissions_witness:
  "snd (on_place default_config socket_a (place_message 10 20 ''#ff0000'') 1700000000000 False
         two_clients)
     = [(socket_a, Pixel 10 20 ''#ff0000''), (socket_b, Pixel 10 20 ''#ff0000'')]
   \<and> snd (on_place default_config socket_a (place_message 11 20 ''#00ff00'') 1700000001000 False
         after_first_place)
     = [(socket_a, PlaceDenied ''cooldown'')]
   \<and> snd (on_place default_config socket_a (place_message 10 20 ''red'') 1700000000000 False
         two_clients) = []
   \<and> snd (on_place default_config socket_a JNull 1700000000000 False two_clients) = []"
  using
    socket_place_emissions [where data = "place_message 10 20 ''#ff0000''" and x = "JNum 10"
      and y = "JNum 20" and color = "JStr ''#ff0000''" and cfg = default_config and i = 10
      and j = 20 and c = "''#ff0000''" and ts = 1700000000000 and s = two_clients
      and sock = socket_a]
    socket_place_emissions [where data = "place_message 11 20 ''#00ff00''" and x = "JNum 11"
      and y = "JNum 20" and color = "JStr ''#00ff00''" and cfg = default_config and i = 11
      and j = 20 and c = "''#00ff00''" and ts = 1700000001000 and s = after_first_place
      and sock = socket_a and db_err = False]
    socket_place_emissions [where data = "place_message 10 20 ''red''" and x = "JNum 10"
      and y = "JNum 20" and color = "JStr ''red''" and cfg = default_config
      and ts = 1700000000000 and s = two_clients and sock = socket_a and db_err = False]
    socket_place_emissions [where data = JNull and cfg = default_config and ts = 1700000000000
      and s = two_clients and sock = socket_a and db_err = False and e = TypeError]
  by (simp add: after_first_place_def two_clients_def socket_a_def socket_b_def place_message_def
      default_config_def check_place_def hex_class_def table_of_def last_of_def)

section \<open>Payloads that are not objects\<close>

text \<open>
  Claim C9. A place message on the socket whose payload is not an object has no effect:
  the state (table of pixels and both cooldown objects) is the one before and nothing is
  emitted. For \<open>null\<close> and \<open>undefined\<close> the body of the \<open>try\<close> block throws a
  TypeError, which the handler catches; for any other payload the guards return.
\<close>

theorem socket_place_non_object:
  "((\<forall>fs. data \<noteq> JObj fs) \<longrightarrow> on_place cfg sock data ts db_err s = (s, []))
   \<and> (data = JNull \<or> data = JUndefined \<longrightarrow>
        on_place_try cfg sock data ts db_err s = Inl TypeError)"
  by (cases data) (simp_all add: on_place_def on_place_try_def check_place_def)

theorem socket_place_non_object_witness:
  "on_place default_config socket_a JNull 1700000000000 False two_clients = (two_clients, [])
   \<and> on_place_try default_config socket_a JNull 1700000000000 False two_clients = Inl TypeError
   \<and> on_place default_config socket_a (JNum 5) 1700000000000 False two_clients = (two_clients, [])
   \<and> on_place default_config socket_a (JStr ''#ff0000'') 1700000000000 False two_clients
       = (two_clients, [])"
  using
    socket_place_non_object [where data = JNull and cfg = default_config and sock = socket_a
      and ts = 1700000000000 and db_err = False and s = two_clients]
    socket_place_non_object [where data = "JNum 5" and cfg = default_config and sock = socket_a
      and ts = 1700000000000 and db_err = False and s = two_clients]
    socket_place_non_object [where data = "JStr ''#ff0000''" and cfg = default_config
      and sock = socket_a and ts = 1700000000000 and db_err = False and s = two_clients]
  by simp

section \<open>Snapshots on the socket\<close>

text \<open>
  Claim C10. \<open>getPixels\<close> on the socket: when the query succeeds the requesting socket,
  and only it, is sent one \<open>pixels\<close> event with every stored row as \<open>(x, y, color)\<close>;
  when it fails that socket is sent \<open>error\<close> with payload \<open>db\<close> and no \<open>pixels\<close>
  event. In both cases the state is left as it was.
\<close>

theorem socket_getPixels:
  "on_getPixels sock False s = (s, [(sock, Pixels (select_pixels (pixels s)))])
   \<and> (\<forall>r\<in>set (pixels s). (row_x r, row_y r, row_color r) \<in> set (select_pixels (pixels s)))
   \<and> length (select_pixels (pixels s)) = length (pixels s)
   \<and> on_getPixels sock True s = (s, [(sock, ErrorEv ''db'')])"
  by (auto simp: on_getPixels_def socket_emit_def select_pixels_def)

theorem socket_getPixels_witness:
  "on_getPixels socket_b False after_first_place
     = (after_first_place, [(socket_b, Pixels [(10, 20, ''#ff0000'')])])
   \<and> on_getPixels socket_b True after_first_place
     = (after_first_place, [(socket_b, ErrorEv ''db'')])"
  using socket_getPixels [where sock = socket_b and s = after_first_place]
  by (simp add: after_first_place_def select_pixels_def)

end
